theory Spec2Isabelle
  imports Main "HOL-Library.Word"
begin

section \<open>The instruction set of pyhp (\<^verbatim>\<open>pyhp/opcodes.py\<close>)\<close>

text \<open>
  The opcode classes of \<^verbatim>\<open>pyhp/opcodes.py\<close> are embedded one function per \<^verbatim>\<open>eval\<close>
  method. An exception is a value \<open>Inl e\<close> of a sum type, the frame and the Python heap are
  passed explicitly. The modules \<^verbatim>\<open>pyhp.datatypes\<close>, \<^verbatim>\<open>pyhp.utils\<close> and the frame class
  are not part of the source at hand: their operations are either parameters (record
  \<open>env\<close>) or modelled from the specification, and each such definition says so.
\<close>

subsection \<open>Data\<close>

text \<open>
  The payload of a float literal, a double: its 64 bits. The opcodes only carry it around.
\<close>

type_synonym float64 = "64 word"

text \<open>
  One constructor per opcode class. The operands are the fields set by \<^verbatim>\<open>__init__\<close>.
  \<open>LOAD_STRINGVAL\<close> holds the template text and the list that \<^verbatim>\<open>get_variables()\<close>
  returns for it: triples (search, identifier, indexes).
\<close>

datatype opcode =
    LOAD_CONSTANT
  | LOAD_VAR nat string
  | LOAD_FUNCTION "opcode list"
  | LOAD_LIST nat
  | LOAD_NULL
  | LOAD_BOOLEAN bool
  | LOAD_INTVAL int
  | LOAD_FLOATVAL float64
  | LOAD_STRINGVAL string "(string \<times> string \<times> string list) list"
  | LOAD_ARRAY nat
  | LOAD_MEMBER
  | STORE_MEMBER
  | ASSIGN nat string
  | DISCARD_TOP
  | DUP
  | JUMP_IF_FALSE nat
  | JUMP nat
  | RETURN
  | PRINT
  | CALL
  | EQ | GT | GE | LT | LE | AND | OR
  | ADD | SUB | MUL | DIV
  | NOT | INCR | DECR
  | MOD

text \<open>
  The value classes imported from \<^verbatim>\<open>pyhp.datatypes\<close>. A \<open>W_Array\<close> is a mutable object:
  the value is its address in the store, so that two references to one array see the same
  \<^verbatim>\<open>put\<close>.
\<close>

datatype "value" =
    W_Null
  | W_Boolean bool
  | W_IntObject int
  | W_FloatObject float64
  | W_StringObject string
  | W_Array nat
  | W_List "value list"
  | W_Function string
  | W_CodeFunction "opcode list"

datatype error =
    UnboundVariable nat string
  | StackUnderflow
  | UndefinedKey string
  | TypeMismatch
  | DivisionByZero
  | NotImplementedError string
  | AssertionError
  | AttributeError
  | IndexError

type_synonym array = "(string \<times> value) list"
type_synonym store = "array list"

text \<open>
  The frame (\<open>valuestack\<close>, head is the top of the stack, and \<open>vars\<close>) together with the
  heap of array objects (\<open>store\<close>) and the text \<^verbatim>\<open>printf\<close> has written (\<open>printed\<close>).
\<close>

record state =
  valuestack :: "value list"
  vars :: "string \<Rightarrow> value option"
  store :: store
  printed :: "string list"

text \<open>
  The functions of \<^verbatim>\<open>pyhp.datatypes\<close> whose coercion tables the specification leaves
  open, taken as parameters: the methods \<^verbatim>\<open>is_true\<close> and \<^verbatim>\<open>str\<close>, the comparison and
  arithmetic functions (they may raise), and \<^verbatim>\<open>call\<close> of a function value, which runs the
  callee in a frame of its own and so returns a result, a heap and an output but no new
  caller frame.
\<close>

record env =
  is_true :: "store \<Rightarrow> value \<Rightarrow> bool"
  str :: "store \<Rightarrow> value \<Rightarrow> string"
  compare_eq :: "store \<Rightarrow> value \<Rightarrow> value \<Rightarrow> error + bool"
  compare_gt :: "store \<Rightarrow> value \<Rightarrow> value \<Rightarrow> error + bool"
  compare_ge :: "store \<Rightarrow> value \<Rightarrow> value \<Rightarrow> error + bool"
  compare_lt :: "store \<Rightarrow> value \<Rightarrow> value \<Rightarrow> error + bool"
  compare_le :: "store \<Rightarrow> value \<Rightarrow> value \<Rightarrow> error + bool"
  plus_w :: "store \<Rightarrow> value \<Rightarrow> value \<Rightarrow> error + value"
  sub_w :: "store \<Rightarrow> value \<Rightarrow> value \<Rightarrow> error + value"
  mult_w :: "store \<Rightarrow> value \<Rightarrow> value \<Rightarrow> error + value"
  division_w :: "store \<Rightarrow> value \<Rightarrow> value \<Rightarrow> error + value"
  increment :: "store \<Rightarrow> value \<Rightarrow> error + value"
  decrement :: "store \<Rightarrow> value \<Rightarrow> error + value"
  call :: "value \<Rightarrow> value list \<Rightarrow> state \<Rightarrow> error + (value \<times> store \<times> string list)"

subsection \<open>The frame\<close>

text \<open>
  Modelled from the spec: the class \<^verbatim>\<open>Frame\<close> (\<^verbatim>\<open>pyhp/frame.py\<close>) is missing. The
  specification gives \<^verbatim>\<open>push(Value)\<close>, \<^verbatim>\<open>pop() -> Value\<close> (fails if empty),
  \<^verbatim>\<open>pop_n(count) -> Value[]\<close> in original order, \<^verbatim>\<open>top() -> Value\<close> (peek, no removal),
  \<^verbatim>\<open>get_var(name, slot) -> Value|absent\<close>, \<^verbatim>\<open>set_var(slot, name, Value)\<close> and the current
  depth. Slot and name resolve to the same binding, so the bindings are keyed by the name
  (which \<^verbatim>\<open>LOAD_STRINGVAL\<close> alone passes) and the slot selects nothing more.
\<close>

definition push :: "value \<Rightarrow> state \<Rightarrow> state" where
  "push v s = s\<lparr>valuestack := v # valuestack s\<rparr>"

definition pop :: "state \<Rightarrow> error + (value \<times> state)" where
  "pop s = (case valuestack s of
              [] \<Rightarrow> Inl StackUnderflow
            | v # rest \<Rightarrow> Inr (v, s\<lparr>valuestack := rest\<rparr>))"

definition pop_n :: "nat \<Rightarrow> state \<Rightarrow> error + (value list \<times> state)" where
  "pop_n n s = (if length (valuestack s) < n then Inl StackUnderflow
                else Inr (rev (take n (valuestack s)), s\<lparr>valuestack := drop n (valuestack s)\<rparr>))"

definition top :: "state \<Rightarrow> error + value" where
  "top s = (case valuestack s of [] \<Rightarrow> Inl StackUnderflow | v # rest \<Rightarrow> Inr v)"

definition get_var :: "string \<Rightarrow> nat option \<Rightarrow> state \<Rightarrow> value option" where
  "get_var name index s = vars s name"

definition set_var :: "nat \<Rightarrow> string \<Rightarrow> value \<Rightarrow> state \<Rightarrow> state" where
  "set_var index name v s = s\<lparr>vars := (vars s)(name \<mapsto> v)\<rparr>"

definition valuestack_pos :: "state \<Rightarrow> nat" where
  "valuestack_pos s = length (valuestack s)"

subsection \<open>Arrays and strings\<close>

text \<open>
  Modelled from the spec: the class \<^verbatim>\<open>W_Array\<close> is missing. The specification calls it an
  ordered string-keyed map with \<^verbatim>\<open>get(key)\<close>, which fails with UndefinedKey, and
  \<^verbatim>\<open>put(key, value)\<close>, an in-place mutation: a present key keeps its position and takes the
  new value, a new key goes to the end.
\<close>

fun array_put :: "array \<Rightarrow> string \<Rightarrow> value \<Rightarrow> array" where
  "array_put [] key v = [(key, v)]"
| "array_put ((k, w) # rest) key v =
     (if k = key then (k, v) # rest else (k, w) # array_put rest key v)"

definition array_get :: "array \<Rightarrow> string \<Rightarrow> error + value" where
  "array_get a key = (case map_of a key of None \<Rightarrow> Inl (UndefinedKey key) | Some v \<Rightarrow> Inr v)"

text \<open>
  Modelled from the spec: the methods \<^verbatim>\<open>put\<close> and \<^verbatim>\<open>get\<close> of a value. Only an array is
  a container; member access on any other value is a TypeMismatch, and so is an address
  with no object behind it.
\<close>

fun put :: "store \<Rightarrow> value \<Rightarrow> string \<Rightarrow> value \<Rightarrow> error + store" where
  "put st (W_Array a) key v =
     (if a < length st then Inr (st[a := array_put (st ! a) key v]) else Inl TypeMismatch)"
| "put st c key v = Inl TypeMismatch"

fun get :: "store \<Rightarrow> value \<Rightarrow> string \<Rightarrow> error + value" where
  "get st (W_Array a) key =
     (if a < length st then array_get (st ! a) key else Inl TypeMismatch)"
| "get st c key = Inl TypeMismatch"

text \<open>Python's \<^verbatim>\<open>str(index)\<close> on an index of \<^verbatim>\<open>enumerate\<close>: the decimal digits.\<close>

definition digit_char :: "nat \<Rightarrow> char" where
  "digit_char d = char_of (48 + d)"

function py_str :: "nat \<Rightarrow> string" where
  "py_str n = (if n < 10 then [digit_char n] else py_str (n div 10) @ [digit_char (n mod 10)])"
  by pat_completeness auto
termination
  by (relation "measure (\<lambda>n. n)") auto

declare py_str.simps [simp del]

text \<open>
  Modelled from the spec: \<^verbatim>\<open>W_StringObject.replace(search, replace)\<close> is missing; it
  replaces every occurrence of the search pattern, as Python's \<^verbatim>\<open>str.replace\<close> does (from
  the left, occurrences not overlapping, an empty pattern matching before every character
  and at the end).
\<close>

function replace :: "string \<Rightarrow> string \<Rightarrow> string \<Rightarrow> string" where
  "replace [] search new = (if search = [] then new else [])"
| "replace (c # cs) search new =
     (if search = [] then new @ c # replace cs search new
      else if take (length search) (c # cs) = search
        then new @ replace (drop (length search) (c # cs)) search new
      else c # replace cs search new)"
  by pat_completeness auto
termination
  by (relation "measure (\<lambda>(t, search, new). length t)") auto

subsection \<open>The \<^verbatim>\<open>eval\<close> methods\<close>

text \<open>
  Every method but \<^verbatim>\<open>RETURN.eval\<close> returns \<^verbatim>\<open>None\<close>: its model returns the new state, or
  the exception raised.
\<close>

definition LOAD_VAR_eval :: "nat \<Rightarrow> string \<Rightarrow> state \<Rightarrow> error + state" where
  "LOAD_VAR_eval index name frame =
     (case get_var name (Some index) frame of
        None \<Rightarrow> Inl (UnboundVariable index name)
      | Some variable \<Rightarrow> Inr (push variable frame))"

definition LOAD_FUNCTION_eval :: "opcode list \<Rightarrow> state \<Rightarrow> error + state" where
  "LOAD_FUNCTION_eval function frame = Inr (push (W_CodeFunction function) frame)"

definition LOAD_LIST_eval :: "nat \<Rightarrow> state \<Rightarrow> error + state" where
  "LOAD_LIST_eval number frame =
     (case pop_n number frame of
        Inl e \<Rightarrow> Inl e
      | Inr (list_w, frame1) \<Rightarrow> Inr (push (W_List list_w) frame1))"

definition LOAD_NULL_eval :: "state \<Rightarrow> error + state" where
  "LOAD_NULL_eval frame = Inr (push W_Null frame)"

definition LOAD_BOOLEAN_eval :: "bool \<Rightarrow> state \<Rightarrow> error + state" where
  "LOAD_BOOLEAN_eval v frame = Inr (push (W_Boolean v) frame)"

definition LOAD_INTVAL_eval :: "int \<Rightarrow> state \<Rightarrow> error + state" where
  "LOAD_INTVAL_eval v frame = Inr (push (W_IntObject v) frame)"

definition LOAD_FLOATVAL_eval :: "float64 \<Rightarrow> state \<Rightarrow> error + state" where
  "LOAD_FLOATVAL_eval v frame = Inr (push (W_FloatObject v) frame)"

text \<open>
  The inner loop of \<^verbatim>\<open>LOAD_STRINGVAL.eval\<close> over \<^verbatim>\<open>indexes\<close>. \<^verbatim>\<open>value\<close> is what
  \<^verbatim>\<open>get_var\<close> returned, possibly \<^verbatim>\<open>None\<close>; a method called on \<^verbatim>\<open>None\<close> raises, and so does
  \<^verbatim>\<open>key[0]\<close> on an empty key.
\<close>

fun navigate :: "env \<Rightarrow> state \<Rightarrow> value option \<Rightarrow> string list \<Rightarrow> error + value option" where
  "navigate E frame val [] = Inr val"
| "navigate E frame val (key # indexes) =
     (case key of
        [] \<Rightarrow> Inl IndexError
      | c # cs \<Rightarrow>
          (case (if c = CHR ''$''
                 then (case get_var key None frame of
                         None \<Rightarrow> Inl AttributeError
                       | Some kv \<Rightarrow> Inr (str E (store frame) kv))
                 else Inr key) of
             Inl e \<Rightarrow> Inl e
           | Inr key1 \<Rightarrow>
               (case val of
                  None \<Rightarrow> Inl AttributeError
                | Some v \<Rightarrow>
                    (case get (store frame) v key1 of
                       Inl e \<Rightarrow> Inl e
                     | Inr v1 \<Rightarrow> navigate E frame (Some v1) indexes))))"

text \<open>The outer loop over \<^verbatim>\<open>stringval.get_variables()\<close>, in the order of that list.\<close>

fun interpolate ::
  "env \<Rightarrow> state \<Rightarrow> (string \<times> string \<times> string list) list \<Rightarrow> string \<Rightarrow> error + string" where
  "interpolate E frame [] stringval = Inr stringval"
| "interpolate E frame ((search, identifier, indexes) # variables) stringval =
     (case navigate E frame (get_var identifier None frame) indexes of
        Inl e \<Rightarrow> Inl e
      | Inr None \<Rightarrow> Inl AttributeError
      | Inr (Some v) \<Rightarrow>
          interpolate E frame variables (replace stringval search (str E (store frame) v)))"

definition LOAD_STRINGVAL_eval ::
  "env \<Rightarrow> string \<Rightarrow> (string \<times> string \<times> string list) list \<Rightarrow> state \<Rightarrow> error + state" where
  "LOAD_STRINGVAL_eval E template variables frame =
     (case interpolate E frame variables template of
        Inl e \<Rightarrow> Inl e
      | Inr stringval \<Rightarrow> Inr (push (W_StringObject stringval) frame))"

text \<open>
  The loop of \<^verbatim>\<open>LOAD_ARRAY.eval\<close> over \<^verbatim>\<open>enumerate(list_w)\<close>; \<open>a\<close> is the address of the
  array made by \<^verbatim>\<open>W_Array()\<close>, the first free address of the store.
\<close>

fun LOAD_ARRAY_loop :: "nat \<Rightarrow> nat \<Rightarrow> value list \<Rightarrow> store \<Rightarrow> error + store" where
  "LOAD_ARRAY_loop a index [] st = Inr st"
| "LOAD_ARRAY_loop a index (el # list_w) st =
     (case put st (W_Array a) (py_str index) el of
        Inl e \<Rightarrow> Inl e
      | Inr st1 \<Rightarrow> LOAD_ARRAY_loop a (Suc index) list_w st1)"

definition LOAD_ARRAY_eval :: "nat \<Rightarrow> state \<Rightarrow> error + state" where
  "LOAD_ARRAY_eval number frame =
     (let a = length (store frame);
          frame0 = frame\<lparr>store := store frame @ [[]]\<rparr>
      in case pop_n number frame0 of
           Inl e \<Rightarrow> Inl e
         | Inr (list_w, frame1) \<Rightarrow>
             (case LOAD_ARRAY_loop a 0 list_w (store frame1) of
                Inl e \<Rightarrow> Inl e
              | Inr st \<Rightarrow> Inr (push (W_Array a) (frame1\<lparr>store := st\<rparr>))))"

definition LOAD_MEMBER_eval :: "env \<Rightarrow> state \<Rightarrow> error + state" where
  "LOAD_MEMBER_eval E frame =
     (case pop frame of
        Inl e \<Rightarrow> Inl e
      | Inr (array, frame1) \<Rightarrow>
          (case pop frame1 of
             Inl e \<Rightarrow> Inl e
           | Inr (m, frame2) \<Rightarrow>
               (case get (store frame2) array (str E (store frame2) m) of
                  Inl e \<Rightarrow> Inl e
                | Inr v \<Rightarrow> Inr (push v frame2))))"

definition STORE_MEMBER_eval :: "env \<Rightarrow> state \<Rightarrow> error + state" where
  "STORE_MEMBER_eval E frame =
     (case pop frame of
        Inl e \<Rightarrow> Inl e
      | Inr (array, frame1) \<Rightarrow>
          (case pop frame1 of
             Inl e \<Rightarrow> Inl e
           | Inr (i, frame2) \<Rightarrow>
               (case pop frame2 of
                  Inl e \<Rightarrow> Inl e
                | Inr (v, frame3) \<Rightarrow>
                    (case put (store frame3) array (str E (store frame3) i) v of
                       Inl e \<Rightarrow> Inl e
                     | Inr st \<Rightarrow> Inr (frame3\<lparr>store := st\<rparr>)))))"

definition ASSIGN_eval :: "nat \<Rightarrow> string \<Rightarrow> state \<Rightarrow> error + state" where
  "ASSIGN_eval index name frame =
     (case pop frame of
        Inl e \<Rightarrow> Inl e
      | Inr (v, frame1) \<Rightarrow> Inr (set_var index name v frame1))"

definition DISCARD_TOP_eval :: "state \<Rightarrow> error + state" where
  "DISCARD_TOP_eval frame =
     (case pop frame of Inl e \<Rightarrow> Inl e | Inr (v, frame1) \<Rightarrow> Inr frame1)"

definition DUP_eval :: "state \<Rightarrow> error + state" where
  "DUP_eval frame = (case top frame of Inl e \<Rightarrow> Inl e | Inr v \<Rightarrow> Inr (push v frame))"

text \<open>\<^verbatim>\<open>BaseJump.eval\<close> is \<^verbatim>\<open>pass\<close>; the jumps act through \<^verbatim>\<open>do_jump\<close>.\<close>

definition BaseJump_eval :: "state \<Rightarrow> error + state" where
  "BaseJump_eval frame = Inr frame"

definition JUMP_IF_FALSE_do_jump :: "env \<Rightarrow> nat \<Rightarrow> state \<Rightarrow> nat \<Rightarrow> error + (nat \<times> state)" where
  "JUMP_IF_FALSE_do_jump E where frame pos =
     (case pop frame of
        Inl e \<Rightarrow> Inl e
      | Inr (v, frame1) \<Rightarrow>
          (if \<not> is_true E (store frame1) v then Inr (where, frame1)
           else Inr (pos + 1, frame1)))"

definition JUMP_do_jump :: "nat \<Rightarrow> state \<Rightarrow> nat \<Rightarrow> error + (nat \<times> state)" where
  "JUMP_do_jump where frame pos = Inr (where, frame)"

text \<open>\<^verbatim>\<open>RETURN.eval\<close> returns the value it yields.\<close>

definition RETURN_eval :: "state \<Rightarrow> error + (value \<times> state)" where
  "RETURN_eval frame =
     (if valuestack_pos frame > 0 then pop frame else Inr (W_Null, frame))"

definition PRINT_eval :: "env \<Rightarrow> state \<Rightarrow> error + state" where
  "PRINT_eval E frame =
     (case pop frame of
        Inl e \<Rightarrow> Inl e
      | Inr (item, frame1) \<Rightarrow>
          Inr (frame1\<lparr>printed := printed frame1 @ [str E (store frame1) item]\<rparr>))"

text \<open>\<^verbatim>\<open>isinstance(method, W_Function)\<close>; \<^verbatim>\<open>W_CodeFunction\<close> is a function class too.\<close>

fun is_W_Function :: "value \<Rightarrow> bool" where
  "is_W_Function (W_Function f) = True"
| "is_W_Function (W_CodeFunction p) = True"
| "is_W_Function v = False"

definition CALL_eval :: "env \<Rightarrow> state \<Rightarrow> error + state" where
  "CALL_eval E frame =
     (case pop frame of
        Inl e \<Rightarrow> Inl e
      | Inr (method, frame1) \<Rightarrow>
          (case pop frame1 of
             Inl e \<Rightarrow> Inl e
           | Inr (params, frame2) \<Rightarrow>
               (if \<not> is_W_Function method then Inl AssertionError
                else case params of
                   W_List to_list \<Rightarrow>
                     (case call E method to_list frame2 of
                        Inl e \<Rightarrow> Inl e
                      | Inr (res, st, out) \<Rightarrow>
                          Inr (push res (frame2\<lparr>store := st, printed := out\<rparr>)))
                 | _ \<Rightarrow> Inl AssertionError)))"

text \<open>
  \<^verbatim>\<open>BaseDecision.eval\<close>, with the \<^verbatim>\<open>decision\<close> method of the subclass as an argument. The
  comparison functions read the operands, which may be arrays, so they get the store.
\<close>

definition BaseDecision_eval ::
  "(store \<Rightarrow> value \<Rightarrow> value \<Rightarrow> error + bool) \<Rightarrow> state \<Rightarrow> error + state" where
  "BaseDecision_eval decision frame =
     (case pop frame of
        Inl e \<Rightarrow> Inl e
      | Inr (right, frame1) \<Rightarrow>
          (case pop frame1 of
             Inl e \<Rightarrow> Inl e
           | Inr (left, frame2) \<Rightarrow>
               (case decision (store frame2) left right of
                  Inl e \<Rightarrow> Inl e
                | Inr res \<Rightarrow> Inr (push (W_Boolean res) frame2))))"

definition AND_decision :: "env \<Rightarrow> store \<Rightarrow> value \<Rightarrow> value \<Rightarrow> error + bool" where
  "AND_decision E st left right = Inr (is_true E st left \<and> is_true E st right)"

definition OR_decision :: "env \<Rightarrow> store \<Rightarrow> value \<Rightarrow> value \<Rightarrow> error + bool" where
  "OR_decision E st left right = Inr (is_true E st left \<or> is_true E st right)"

text \<open>\<^verbatim>\<open>ADD\<close>, \<^verbatim>\<open>SUB\<close>, \<^verbatim>\<open>MUL\<close> and \<^verbatim>\<open>DIV\<close> have the same body up to the function called.\<close>

definition binary_eval ::
  "(store \<Rightarrow> value \<Rightarrow> value \<Rightarrow> error + value) \<Rightarrow> state \<Rightarrow> error + state" where
  "binary_eval f frame =
     (case pop frame of
        Inl e \<Rightarrow> Inl e
      | Inr (right, frame1) \<Rightarrow>
          (case pop frame1 of
             Inl e \<Rightarrow> Inl e
           | Inr (left, frame2) \<Rightarrow>
               (case f (store frame2) left right of
                  Inl e \<Rightarrow> Inl e
                | Inr res \<Rightarrow> Inr (push res frame2))))"

definition NOT_eval :: "env \<Rightarrow> state \<Rightarrow> error + state" where
  "NOT_eval E frame =
     (case pop frame of
        Inl e \<Rightarrow> Inl e
      | Inr (val, frame1) \<Rightarrow>
          (let boolval = is_true E (store frame1) val
           in Inr (push (W_Boolean (\<not> boolval)) frame1)))"

text \<open>\<^verbatim>\<open>INCR\<close> and \<^verbatim>\<open>DECR\<close>.\<close>

definition unary_eval :: "(store \<Rightarrow> value \<Rightarrow> error + value) \<Rightarrow> state \<Rightarrow> error + state" where
  "unary_eval f frame =
     (case pop frame of
        Inl e \<Rightarrow> Inl e
      | Inr (left, frame1) \<Rightarrow>
          (case f (store frame1) left of
             Inl e \<Rightarrow> Inl e
           | Inr res \<Rightarrow> Inr (push res frame1)))"

text \<open>
  The virtual call \<^verbatim>\<open>opcode.eval(frame)\<close>: the Python result (\<^verbatim>\<open>None\<close> but for
  \<^verbatim>\<open>RETURN\<close>) and the new state. \<^verbatim>\<open>LOAD_CONSTANT\<close> and \<^verbatim>\<open>MOD\<close> inherit \<^verbatim>\<open>Opcode.eval\<close>,
  which raises \<^verbatim>\<open>NotImplementedError\<close>.
\<close>

definition no_result :: "error + state \<Rightarrow> error + (value option \<times> state)" where
  "no_result r = (case r of Inl e \<Rightarrow> Inl e | Inr frame \<Rightarrow> Inr (None, frame))"

fun eval :: "env \<Rightarrow> opcode \<Rightarrow> state \<Rightarrow> error + (value option \<times> state)" where
  "eval E LOAD_CONSTANT frame = Inl (NotImplementedError ''LOAD_CONSTANT.eval'')"
| "eval E (LOAD_VAR index name) frame = no_result (LOAD_VAR_eval index name frame)"
| "eval E (LOAD_FUNCTION function) frame = no_result (LOAD_FUNCTION_eval function frame)"
| "eval E (LOAD_LIST number) frame = no_result (LOAD_LIST_eval number frame)"
| "eval E LOAD_NULL frame = no_result (LOAD_NULL_eval frame)"
| "eval E (LOAD_BOOLEAN v) frame = no_result (LOAD_BOOLEAN_eval v frame)"
| "eval E (LOAD_INTVAL v) frame = no_result (LOAD_INTVAL_eval v frame)"
| "eval E (LOAD_FLOATVAL v) frame = no_result (LOAD_FLOATVAL_eval v frame)"
| "eval E (LOAD_STRINGVAL template variables) frame =
     no_result (LOAD_STRINGVAL_eval E template variables frame)"
| "eval E (LOAD_ARRAY number) frame = no_result (LOAD_ARRAY_eval number frame)"
| "eval E LOAD_MEMBER frame = no_result (LOAD_MEMBER_eval E frame)"
| "eval E STORE_MEMBER frame = no_result (STORE_MEMBER_eval E frame)"
| "eval E (ASSIGN index name) frame = no_result (ASSIGN_eval index name frame)"
| "eval E DISCARD_TOP frame = no_result (DISCARD_TOP_eval frame)"
| "eval E DUP frame = no_result (DUP_eval frame)"
| "eval E (JUMP_IF_FALSE where) frame = no_result (BaseJump_eval frame)"
| "eval E (JUMP where) frame = no_result (BaseJump_eval frame)"
| "eval E RETURN frame =
     (case RETURN_eval frame of Inl e \<Rightarrow> Inl e | Inr (v, frame1) \<Rightarrow> Inr (Some v, frame1))"
| "eval E PRINT frame = no_result (PRINT_eval E frame)"
| "eval E CALL frame = no_result (CALL_eval E frame)"
| "eval E EQ frame = no_result (BaseDecision_eval (compare_eq E) frame)"
| "eval E GT frame = no_result (BaseDecision_eval (compare_gt E) frame)"
| "eval E GE frame = no_result (BaseDecision_eval (compare_ge E) frame)"
| "eval E LT frame = no_result (BaseDecision_eval (compare_lt E) frame)"
| "eval E LE frame = no_result (BaseDecision_eval (compare_le E) frame)"
| "eval E AND frame = no_result (BaseDecision_eval (AND_decision E) frame)"
| "eval E OR frame = no_result (BaseDecision_eval (OR_decision E) frame)"
| "eval E ADD frame = no_result (binary_eval (plus_w E) frame)"
| "eval E SUB frame = no_result (binary_eval (sub_w E) frame)"
| "eval E MUL frame = no_result (binary_eval (mult_w E) frame)"
| "eval E DIV frame = no_result (binary_eval (division_w E) frame)"
| "eval E NOT frame = no_result (NOT_eval E frame)"
| "eval E INCR frame = no_result (unary_eval (increment E) frame)"
| "eval E DECR frame = no_result (unary_eval (decrement E) frame)"
| "eval E MOD frame = Inl (NotImplementedError ''MOD.eval'')"

subsection \<open>The dispatch loop\<close>

text \<open>
  Modelled from the spec: the interpreter loop is missing. The specification's transition
  rule: fetch the instruction at \<open>pc\<close>; a \<^verbatim>\<open>RETURN\<close> ends the loop with the value it yields; a
  jump computes the next \<open>pc\<close> by \<^verbatim>\<open>do_jump\<close>; any other instruction is executed and
  \<open>pc\<close> advances by one; \<open>pc\<close> at the end of the program ends the loop with Null. The loop
  may run forever, so it takes fuel, and \<open>None\<close> means the fuel ran out.
\<close>

fun execute ::
  "env \<Rightarrow> nat \<Rightarrow> opcode list \<Rightarrow> nat \<Rightarrow> state \<Rightarrow> (error + (value \<times> state)) option" where
  "execute E 0 program pc frame = None"
| "execute E (Suc fuel) program pc frame =
     (if pc \<ge> length program then Some (Inr (W_Null, frame))
      else case program ! pc of
          RETURN \<Rightarrow> Some (RETURN_eval frame)
        | JUMP where \<Rightarrow>
            (case JUMP_do_jump where frame pc of
               Inl e \<Rightarrow> Some (Inl e)
             | Inr (pc1, frame1) \<Rightarrow> execute E fuel program pc1 frame1)
        | JUMP_IF_FALSE where \<Rightarrow>
            (case JUMP_IF_FALSE_do_jump E where frame pc of
               Inl e \<Rightarrow> Some (Inl e)
             | Inr (pc1, frame1) \<Rightarrow> execute E fuel program pc1 frame1)
        | opcode \<Rightarrow>
            (case eval E opcode frame of
               Inl e \<Rightarrow> Some (Inl e)
             | Inr (r, frame1) \<Rightarrow> execute E fuel program (pc + 1) frame1))"

subsection \<open>The documented stack effects\<close>

text \<open>
  The opcode table of the specification, read as "pop k, push m": \<open>stack_effect\<close> is
  \<open>Some (k, m)\<close> for an opcode with such an entry ("pop 3, push back container" is
  \<open>(3, 1)\<close>, "duplicate top" is \<open>(0, 1)\<close>). \<^verbatim>\<open>RETURN\<close> ("pop 0 or 1"), \<^verbatim>\<open>JUMP\<close>
  ("none"), the unfinished \<^verbatim>\<open>MOD\<close> and the base class \<^verbatim>\<open>LOAD_CONSTANT\<close> have none.
\<close>

fun stack_effect :: "opcode \<Rightarrow> (nat \<times> nat) option" where
  "stack_effect LOAD_NULL = Some (0, 1)"
| "stack_effect (LOAD_BOOLEAN v) = Some (0, 1)"
| "stack_effect (LOAD_INTVAL v) = Some (0, 1)"
| "stack_effect (LOAD_FLOATVAL v) = Some (0, 1)"
| "stack_effect (LOAD_STRINGVAL template variables) = Some (0, 1)"
| "stack_effect (LOAD_VAR index name) = Some (0, 1)"
| "stack_effect (LOAD_FUNCTION function) = Some (0, 1)"
| "stack_effect (LOAD_LIST n) = Some (n, 1)"
| "stack_effect (LOAD_ARRAY n) = Some (n, 1)"
| "stack_effect LOAD_MEMBER = Some (2, 1)"
| "stack_effect STORE_MEMBER = Some (3, 1)"
| "stack_effect (ASSIGN index name) = Some (1, 0)"
| "stack_effect DISCARD_TOP = Some (1, 0)"
| "stack_effect DUP = Some (0, 1)"
| "stack_effect (JUMP_IF_FALSE where) = Some (1, 0)"
| "stack_effect PRINT = Some (1, 0)"
| "stack_effect CALL = Some (2, 1)"
| "stack_effect EQ = Some (2, 1)"
| "stack_effect GT = Some (2, 1)"
| "stack_effect GE = Some (2, 1)"
| "stack_effect LT = Some (2, 1)"
| "stack_effect LE = Some (2, 1)"
| "stack_effect AND = Some (2, 1)"
| "stack_effect OR = Some (2, 1)"
| "stack_effect ADD = Some (2, 1)"
| "stack_effect SUB = Some (2, 1)"
| "stack_effect MUL = Some (2, 1)"
| "stack_effect DIV = Some (2, 1)"
| "stack_effect NOT = Some (1, 1)"
| "stack_effect INCR = Some (1, 1)"
| "stack_effect DECR = Some (1, 1)"
| "stack_effect opcode = None"

subsection \<open>A concrete instance of the parameters\<close>

text \<open>
  An instance of \<open>env\<close> on which the model can be evaluated at concrete inputs. It knows
  integers, booleans and strings only and stands for no coercion table of the program.
\<close>

fun int_compare :: "(int \<Rightarrow> int \<Rightarrow> bool) \<Rightarrow> store \<Rightarrow> value \<Rightarrow> value \<Rightarrow> error + bool" where
  "int_compare f st (W_IntObject x) (W_IntObject y) = Inr (f x y)"
| "int_compare f st a b = Inl TypeMismatch"

fun int_binop :: "(int \<Rightarrow> int \<Rightarrow> int) \<Rightarrow> store \<Rightarrow> value \<Rightarrow> value \<Rightarrow> error + value" where
  "int_binop f st (W_IntObject x) (W_IntObject y) = Inr (W_IntObject (f x y))"
| "int_binop f st a b = Inl TypeMismatch"

fun int_division :: "store \<Rightarrow> value \<Rightarrow> value \<Rightarrow> error + value" where
  "int_division st (W_IntObject x) (W_IntObject y) =
     (if y = 0 then Inl DivisionByZero else Inr (W_IntObject (x div y)))"
| "int_division st a b = Inl TypeMismatch"

fun int_unop :: "(int \<Rightarrow> int) \<Rightarrow> store \<Rightarrow> value \<Rightarrow> error + value" where
  "int_unop f st (W_IntObject x) = Inr (W_IntObject (f x))"
| "int_unop f st a = Inl TypeMismatch"

fun example_is_true :: "store \<Rightarrow> value \<Rightarrow> bool" where
  "example_is_true st W_Null = False"
| "example_is_true st (W_Boolean b) = b"
| "example_is_true st (W_IntObject i) = (i \<noteq> 0)"
| "example_is_true st (W_StringObject t) = (t \<noteq> [])"
| "example_is_true st v = True"

fun example_str :: "store \<Rightarrow> value \<Rightarrow> string" where
  "example_str st (W_StringObject t) = t"
| "example_str st (W_IntObject i) =
     (if i < 0 then CHR ''-'' # py_str (nat (- i)) else py_str (nat i))"
| "example_str st (W_Boolean b) = (if b then ''1'' else [])"
| "example_str st v = []"

definition example_env :: env where
  "example_env =
     \<lparr>is_true = example_is_true,
      str = example_str,
      compare_eq = (\<lambda>st a b. Inr (a = b)),
      compare_gt = int_compare (\<lambda>x y. x > y),
      compare_ge = int_compare (\<lambda>x y. x \<ge> y),
      compare_lt = int_compare (\<lambda>x y. x < y),
      compare_le = int_compare (\<lambda>x y. x \<le> y),
      plus_w = int_binop (\<lambda>x y. x + y),
      sub_w = int_binop (\<lambda>x y. x - y),
      mult_w = int_binop (\<lambda>x y. x * y),
      division_w = int_division,
      increment = int_unop (\<lambda>x. x + 1),
      decrement = int_unop (\<lambda>x. x - 1),
      call = (\<lambda>method to_list frame. Inr (W_Null, store frame, printed frame))\<rparr>"

text \<open>The empty frame on an empty heap.\<close>

definition empty_state :: state where
  "empty_state = \<lparr>valuestack = [], vars = Map.empty, store = [], printed = []\<rparr>"

text \<open>The depth of the stack after a call that returned; \<open>None\<close> after one that raised.\<close>

definition depth_after :: "error + ('a \<times> state) \<Rightarrow> nat option" where
  "depth_after r = (case r of Inl e \<Rightarrow> None | Inr (x, frame) \<Rightarrow> Some (valuestack_pos frame))"

text \<open>
  A frame of depth three for \<^verbatim>\<open>STORE_MEMBER\<close>: an array on top, a key, a value; the
  variable \<^verbatim>\<open>$a\<close> refers to the same array.
\<close>

definition store_member_frame :: state where
  "store_member_frame =
     \<lparr>valuestack = [W_Array 0, W_StringObject ''k'', W_IntObject 1],
      vars = [''$a'' \<mapsto> W_Array 0],
      store = [[]],
      printed = []\<rparr>"

text \<open>A frame for the interpolation of a string literal.\<close>

definition interpolation_frame :: state where
  "interpolation_frame =
     \<lparr>valuestack = [],
      vars = [''$x'' \<mapsto> W_StringObject ''1'', ''$y'' \<mapsto> W_StringObject ''$x'',
              ''$k'' \<mapsto> W_IntObject 0, ''$m'' \<mapsto> W_Array 0],
      store = [[(''0'', W_StringObject ''zero'')]],
      printed = []\<rparr>"

subsection \<open>Classes of opcodes\<close>

text \<open>The opcodes that work on the operand stack alone.\<close>

fun stack_only :: "opcode \<Rightarrow> bool" where
  "stack_only LOAD_NULL = True"
| "stack_only (LOAD_BOOLEAN v) = True"
| "stack_only (LOAD_INTVAL v) = True"
| "stack_only (LOAD_FLOATVAL v) = True"
| "stack_only DUP = True"
| "stack_only DISCARD_TOP = True"
| "stack_only NOT = True"
| "stack_only INCR = True"
| "stack_only DECR = True"
| "stack_only ADD = True"
| "stack_only SUB = True"
| "stack_only MUL = True"
| "stack_only DIV = True"
| "stack_only EQ = True"
| "stack_only GT = True"
| "stack_only GE = True"
| "stack_only LT = True"
| "stack_only LE = True"
| "stack_only AND = True"
| "stack_only OR = True"
| "stack_only opcode = False"

fun is_ASSIGN :: "opcode \<Rightarrow> bool" where
  "is_ASSIGN (ASSIGN index name) = True"
| "is_ASSIGN opcode = False"

fun is_JUMP_IF_FALSE :: "opcode \<Rightarrow> bool" where
  "is_JUMP_IF_FALSE (JUMP_IF_FALSE where) = True"
| "is_JUMP_IF_FALSE opcode = False"

text \<open>
  The opcodes whose \<^verbatim>\<open>eval\<close> calls nothing that may raise but the pops of the frame.
\<close>

fun raises_on_underflow_only :: "opcode \<Rightarrow> bool" where
  "raises_on_underflow_only LOAD_NULL = True"
| "raises_on_underflow_only (LOAD_BOOLEAN v) = True"
| "raises_on_underflow_only (LOAD_INTVAL v) = True"
| "raises_on_underflow_only (LOAD_FLOATVAL v) = True"
| "raises_on_underflow_only (LOAD_FUNCTION function) = True"
| "raises_on_underflow_only (LOAD_LIST n) = True"
| "raises_on_underflow_only (LOAD_ARRAY n) = True"
| "raises_on_underflow_only (ASSIGN index name) = True"
| "raises_on_underflow_only DISCARD_TOP = True"
| "raises_on_underflow_only PRINT = True"
| "raises_on_underflow_only AND = True"
| "raises_on_underflow_only OR = True"
| "raises_on_underflow_only NOT = True"
| "raises_on_underflow_only opcode = False"

subsection \<open>String interpolation as the specification words it\<close>

text \<open>
  The interpolation protocol in the specification's words, to compare with the loops of
  \<^verbatim>\<open>LOAD_STRINGVAL.eval\<close>. An index key that begins with the variable sigil is replaced by
  the string form of that variable, any other key is used literally.
\<close>

definition spec_key :: "env \<Rightarrow> state \<Rightarrow> string \<Rightarrow> string option" where
  "spec_key E frame key =
     (if take 1 key = ''$'' then map_option (str E (store frame)) (vars frame key)
      else Some key)"

text \<open>Successive \<^verbatim>\<open>get(key)\<close> navigations through a value.\<close>

fun spec_get_path :: "store \<Rightarrow> value \<Rightarrow> string list \<Rightarrow> value option" where
  "spec_get_path st v [] = Some v"
| "spec_get_path st v (key # keys) =
     (case get st v key of Inl e \<Rightarrow> None | Inr v1 \<Rightarrow> spec_get_path st v1 keys)"

text \<open>The final value of one embedded reference (search pattern, base variable, index keys).\<close>

definition spec_resolve :: "env \<Rightarrow> state \<Rightarrow> string \<times> string \<times> string list \<Rightarrow> value option" where
  "spec_resolve E frame reference =
     (case reference of (search, base, keys) \<Rightarrow>
        (case vars frame base of
           None \<Rightarrow> None
         | Some v \<Rightarrow>
             (case those (map (spec_key E frame) keys) of
                None \<Rightarrow> None
              | Some actual_keys \<Rightarrow> spec_get_path (store frame) v actual_keys)))"

text \<open>
  The substitutions, one after the other in the order of the list: every occurrence of the
  search pattern is replaced by the display string of the value.
\<close>

definition spec_substitute :: "env \<Rightarrow> store \<Rightarrow> string \<Rightarrow> (string \<times> value) list \<Rightarrow> string" where
  "spec_substitute E st template substitutions =
     foldl (\<lambda>stringval (search, v). replace stringval search (str E st v)) template substitutions"

section \<open>Properties\<close>

lemmas frame_defs = push_def pop_def pop_n_def top_def get_var_def set_var_def valuestack_pos_def

lemmas eval_defs = no_result_def LOAD_VAR_eval_def LOAD_FUNCTION_eval_def LOAD_LIST_eval_def
  LOAD_NULL_eval_def LOAD_BOOLEAN_eval_def LOAD_INTVAL_eval_def LOAD_FLOATVAL_eval_def
  LOAD_STRINGVAL_eval_def LOAD_MEMBER_eval_def STORE_MEMBER_eval_def
  ASSIGN_eval_def DISCARD_TOP_eval_def DUP_eval_def BaseJump_eval_def RETURN_eval_def
  PRINT_eval_def CALL_eval_def BaseDecision_eval_def AND_decision_def OR_decision_def
  binary_eval_def NOT_eval_def unary_eval_def

subsection \<open>\<^verbatim>\<open>AND\<close> and \<^verbatim>\<open>OR\<close>\<close>

text \<open>
  Claim C3. On a frame whose top is \<open>right\<close> above \<open>left\<close> (left was pushed first),
  \<^verbatim>\<open>AND\<close> pops both and pushes the boolean conjunction of their \<^verbatim>\<open>is_true()\<close>, \<^verbatim>\<open>OR\<close> the
  disjunction. The stack below the two operands is what is left under the result whatever
  the operands are: neither pop is skipped.
\<close>

theorem AND_OR_pop_both:
  assumes "valuestack s = right # left # rest"
  shows "eval E AND s
           = Inr (None, s\<lparr>valuestack :=
                   W_Boolean (is_true E (store s) left \<and> is_true E (store s) right) # rest\<rparr>)
         \<and> eval E OR s
           = Inr (None, s\<lparr>valuestack :=
                   W_Boolean (is_true E (store s) left \<or> is_true E (store s) right) # rest\<rparr>)"
  using assms by (simp add: eval_defs frame_defs)

theorem AND_OR_pop_both_witness:
  "eval example_env AND (empty_state\<lparr>valuestack := [W_IntObject 7, W_Boolean False, W_Null]\<rparr>)
     = Inr (None, empty_state\<lparr>valuestack := [W_Boolean False, W_Null]\<rparr>)
   \<and> eval example_env OR (empty_state\<lparr>valuestack := [W_IntObject 7, W_Boolean False, W_Null]\<rparr>)
     = Inr (None, empty_state\<lparr>valuestack := [W_Boolean True, W_Null]\<rparr>)"
  using AND_OR_pop_both [of "empty_state\<lparr>valuestack := [W_IntObject 7, W_Boolean False, W_Null]\<rparr>"
      "W_IntObject 7" "W_Boolean False" "[W_Null]" example_env]
  by (simp add: example_env_def empty_state_def)

subsection \<open>\<^verbatim>\<open>RETURN\<close>\<close>

text \<open>
  Claim C5. \<^verbatim>\<open>RETURN\<close> on an empty stack yields Null and leaves the frame as it is; on a
  stack \<open>v # rest\<close> it yields \<open>v\<close> and leaves \<open>rest\<close>. It never raises, and the dispatch loop
  that fetches a \<^verbatim>\<open>RETURN\<close> ends at once, with any fuel left, on what \<^verbatim>\<open>RETURN\<close> yields.
\<close>

theorem RETURN_yields:
  "(valuestack s = [] \<longrightarrow> eval E RETURN s = Inr (Some W_Null, s))
   \<and> (\<forall>v rest. valuestack s = v # rest \<longrightarrow>
         eval E RETURN s = Inr (Some v, s\<lparr>valuestack := rest\<rparr>))
   \<and> (\<exists>v s'. RETURN_eval s = Inr (v, s'))
   \<and> (\<forall>program pc fuel. pc < length program \<longrightarrow> program ! pc = RETURN \<longrightarrow>
         execute E (Suc fuel) program pc s = Some (RETURN_eval s))"
  by (cases "valuestack s") (auto simp add: RETURN_eval_def frame_defs)

theorem RETURN_yields_witness:
  "eval example_env RETURN empty_state = Inr (Some W_Null, empty_state)
   \<and> eval example_env RETURN (empty_state\<lparr>valuestack := [W_IntObject 5, W_Null]\<rparr>)
       = Inr (Some (W_IntObject 5), empty_state\<lparr>valuestack := [W_Null]\<rparr>)
   \<and> execute example_env (Suc 0) [LOAD_NULL, RETURN, LOAD_NULL] 1
        (empty_state\<lparr>valuestack := [W_IntObject 5, W_Null]\<rparr>)
       = Some (Inr (W_IntObject 5, empty_state\<lparr>valuestack := [W_Null]\<rparr>))"
  using RETURN_yields [of empty_state example_env]
    RETURN_yields [of "empty_state\<lparr>valuestack := [W_IntObject 5, W_Null]\<rparr>" example_env]
  by (simp add: empty_state_def RETURN_eval_def frame_defs)

subsection \<open>\<^verbatim>\<open>JUMP_IF_FALSE\<close>\<close>

text \<open>
  Claim C6. On a frame with a value \<open>v\<close> on top, \<^verbatim>\<open>JUMP_IF_FALSE(target).do_jump\<close> at
  position \<open>pos\<close> returns \<open>target\<close> when \<open>v.is_true()\<close> is false and \<open>pos + 1\<close> otherwise, and
  the frame it leaves is the old one with \<open>v\<close> popped: bindings, heap and output are the
  same.
\<close>

theorem JUMP_IF_FALSE_do_jump_pops_one:
  assumes "valuestack s = v # rest"
  shows "JUMP_IF_FALSE_do_jump E target s pos
           = Inr (if is_true E (store s) v then pos + 1 else target, s\<lparr>valuestack := rest\<rparr>)"
  using assms by (simp add: JUMP_IF_FALSE_do_jump_def frame_defs)

theorem JUMP_IF_FALSE_do_jump_pops_one_witness:
  "JUMP_IF_FALSE_do_jump example_env 4 (empty_state\<lparr>valuestack := [W_Boolean False, W_Null]\<rparr>) 1
     = Inr (4, empty_state\<lparr>valuestack := [W_Null]\<rparr>)
   \<and> JUMP_IF_FALSE_do_jump example_env 4 (empty_state\<lparr>valuestack := [W_IntObject 2, W_Null]\<rparr>) 1
     = Inr (2, empty_state\<lparr>valuestack := [W_Null]\<rparr>)"
  using JUMP_IF_FALSE_do_jump_pops_one
      [of "empty_state\<lparr>valuestack := [W_Boolean False, W_Null]\<rparr>" "W_Boolean False" "[W_Null]"
          example_env 4 1]
    JUMP_IF_FALSE_do_jump_pops_one
      [of "empty_state\<lparr>valuestack := [W_IntObject 2, W_Null]\<rparr>" "W_IntObject 2" "[W_Null]"
          example_env 4 1]
  by (simp add: example_env_def empty_state_def)

subsection \<open>\<^verbatim>\<open>LOAD_VAR\<close>\<close>

text \<open>
  Claim C8. \<^verbatim>\<open>LOAD_VAR(slot, name)\<close> raises the unbound-variable exception when the frame
  has no binding, and then nothing was pushed (the raise comes before the push); with a
  binding \<open>v\<close> it returns with \<open>v\<close> pushed, one value deeper. It raises if and only if the
  variable is unset.
\<close>

theorem LOAD_VAR_faults_iff_unset:
  "(vars s name = None \<longrightarrow> eval E (LOAD_VAR index name) s = Inl (UnboundVariable index name))
   \<and> (\<forall>v. vars s name = Some v \<longrightarrow>
         eval E (LOAD_VAR index name) s = Inr (None, s\<lparr>valuestack := v # valuestack s\<rparr>))
   \<and> ((\<exists>e. eval E (LOAD_VAR index name) s = Inl e) \<longleftrightarrow> vars s name = None)"
  by (auto simp add: eval_defs frame_defs split: option.splits)

theorem LOAD_VAR_faults_iff_unset_witness:
  "eval example_env (LOAD_VAR 0 ''$b'') store_member_frame = Inl (UnboundVariable 0 ''$b'')
   \<and> eval example_env (LOAD_VAR 0 ''$a'') store_member_frame
       = Inr (None, store_member_frame\<lparr>valuestack :=
               [W_Array 0, W_Array 0, W_StringObject ''k'', W_IntObject 1]\<rparr>)"
  using LOAD_VAR_faults_iff_unset [of store_member_frame "''$b''" example_env 0]
    LOAD_VAR_faults_iff_unset [of store_member_frame "''$a''" example_env 0]
  by (simp add: store_member_frame_def)

subsection \<open>\<^verbatim>\<open>LOAD_LIST\<close> and \<^verbatim>\<open>LOAD_ARRAY\<close> of nothing\<close>

text \<open>
  Claim C10. On any frame, the empty one too, \<^verbatim>\<open>LOAD_LIST(0)\<close> returns with an empty List
  pushed and \<^verbatim>\<open>LOAD_ARRAY(0)\<close> with a new Array pushed that has no keys; the values that
  were on the stack, the bindings and the arrays that were in the heap are as before.
\<close>

theorem LOAD_LIST_ARRAY_zero:
  "eval E (LOAD_LIST 0) s = Inr (None, s\<lparr>valuestack := W_List [] # valuestack s\<rparr>)
   \<and> eval E (LOAD_ARRAY 0) s
       = Inr (None, s\<lparr>valuestack := W_Array (length (store s)) # valuestack s,
                       store := store s @ [[]]\<rparr>)"
  by (simp add: eval_defs LOAD_ARRAY_eval_def frame_defs Let_def)

theorem LOAD_LIST_ARRAY_zero_witness:
  "eval example_env (LOAD_LIST 0) empty_state = Inr (None, empty_state\<lparr>valuestack := [W_List []]\<rparr>)
   \<and> eval example_env (LOAD_ARRAY 0) empty_state
       = Inr (None, empty_state\<lparr>valuestack := [W_Array 0], store := [[]]\<rparr>)"
  using LOAD_LIST_ARRAY_zero [of example_env empty_state]
  by (simp add: empty_state_def)

subsection \<open>\<^verbatim>\<open>LOAD_ARRAY\<close>\<close>

text \<open>Python's \<^verbatim>\<open>str\<close> gives different indexes different keys.\<close>

lemma digit_char_inj: "a < 10 \<Longrightarrow> b < 10 \<Longrightarrow> digit_char a = digit_char b \<Longrightarrow> a = b"
  by (simp add: digit_char_def char_of_eq_iff take_bit_eq_mod)

lemma py_str_not_Nil: "py_str n \<noteq> []"
  by (subst py_str.simps) simp

lemma py_str_not_Nil2: "[] \<noteq> py_str n"
  using py_str_not_Nil [of n] by simp

lemma py_str_small: "n < 10 \<Longrightarrow> py_str n = [digit_char n]"
  by (subst py_str.simps) simp

lemma py_str_big: "\<not> n < 10 \<Longrightarrow> py_str n = py_str (n div 10) @ [digit_char (n mod 10)]"
  by (subst py_str.simps) simp

lemma py_str_inj: "py_str n = py_str m \<Longrightarrow> n = m"
proof (induction n arbitrary: m rule: py_str.induct)
  case (1 n)
  show ?case
  proof (cases "n < 10")
    case small_n: True
    show ?thesis
    proof (cases "m < 10")
      case True
      with small_n "1.prems" show ?thesis
        by (simp add: py_str_small digit_char_inj)
    next
      case False
      with small_n "1.prems" show ?thesis
        by (simp add: py_str_small py_str_big py_str_not_Nil py_str_not_Nil2)
    qed
  next
    case big_n: False
    show ?thesis
    proof (cases "m < 10")
      case True
      with big_n "1.prems" show ?thesis
        by (simp add: py_str_small py_str_big py_str_not_Nil py_str_not_Nil2)
    next
      case False
      with big_n "1.prems"
      have eq: "py_str (n div 10) = py_str (m div 10)"
        and d: "digit_char (n mod 10) = digit_char (m mod 10)"
        by (simp_all add: py_str_big)
      from "1.IH" [OF big_n eq] have "n div 10 = m div 10" .
      moreover from d have "n mod 10 = m mod 10"
        by (intro digit_char_inj) simp_all
      ultimately show ?thesis
        by (metis div_mult_mod_eq)
    qed
  qed
qed

lemma array_put_fresh: "key \<notin> fst ` set a \<Longrightarrow> array_put a key v = a @ [(key, v)]"
  by (induction a) auto

text \<open>
  The loop, started at \<open>index\<close> on an array whose keys are all below \<open>index\<close>, never raises
  and appends the elements under the keys \<open>index\<close>, \<open>index + 1\<close>, ...
\<close>

lemma LOAD_ARRAY_loop_appends:
  assumes "a < length st" and "fst ` set (st ! a) \<subseteq> py_str ` {..<index}"
  shows "LOAD_ARRAY_loop a index list_w st
           = Inr (st[a := st ! a @ zip (map py_str [index..<index + length list_w]) list_w])"
  using assms
proof (induction list_w arbitrary: index st)
  case Nil
  then show ?case by simp
next
  case (Cons el list_w)
  have fresh: "py_str index \<notin> fst ` set (st ! a)"
  proof
    assume "py_str index \<in> fst ` set (st ! a)"
    with Cons.prems(2) obtain j where "j < index" and "py_str index = py_str j" by auto
    then show False using py_str_inj [of index j] by simp
  qed
  let ?st1 = "st[a := st ! a @ [(py_str index, el)]]"
  have step: "put st (W_Array a) (py_str index) el = Inr ?st1"
    using Cons.prems(1) fresh by (simp add: array_put_fresh)
  have keys: "fst ` set (?st1 ! a) \<subseteq> py_str ` {..<Suc index}"
    using Cons.prems by (auto simp: less_Suc_eq)
  have "LOAD_ARRAY_loop a (Suc index) list_w ?st1
          = Inr (?st1[a := ?st1 ! a @ zip (map py_str [Suc index..<Suc index + length list_w]) list_w])"
    using Cons.prems(1) keys by (intro Cons.IH) simp_all
  moreover have "[index..<index + length (el # list_w)]
                   = index # [Suc index..<Suc index + length list_w]"
    by (simp add: upt_conv_Cons del: upt_Suc)
  ultimately show ?case
    using step Cons.prems(1) by (simp del: upt_Suc)
qed

lemma LOAD_ARRAY_eval_result:
  assumes "n \<le> length (valuestack s)"
  shows "LOAD_ARRAY_eval n s
           = Inr (s\<lparr>valuestack := W_Array (length (store s)) # drop n (valuestack s),
                     store := store s @ [zip (map py_str [0..<n]) (rev (take n (valuestack s)))]\<rparr>)"
proof -
  have "LOAD_ARRAY_loop (length (store s)) 0 (rev (take n (valuestack s))) (store s @ [[]])
          = Inr (store s @ [zip (map py_str [0..<n]) (rev (take n (valuestack s)))])"
    using LOAD_ARRAY_loop_appends
      [of "length (store s)" "store s @ [[]]" 0 "rev (take n (valuestack s))"] assms
    by (simp add: min_absorb2)
  then show ?thesis
    using assms by (simp add: LOAD_ARRAY_eval_def frame_defs Let_def)
qed

lemma LOAD_ARRAY_eval_underflow:
  "length (valuestack s) < n \<Longrightarrow> LOAD_ARRAY_eval n s = Inl StackUnderflow"
  by (simp add: LOAD_ARRAY_eval_def frame_defs Let_def)

text \<open>
  Claim C4. On a frame whose top \<open>n\<close> values were pushed in the order \<open>vs = [v0, ..., v(n-1)]\<close>
  (so the stack is \<open>rev vs\<close> above \<open>rest\<close>), \<^verbatim>\<open>LOAD_ARRAY(n)\<close> pops exactly these, and pushes
  a new Array whose entries are, in this order, \<open>("0", v0)\<close>, ..., \<open>("n-1", v(n-1))\<close>:
  \<^verbatim>\<open>get\<close> of the key \<open>str(i)\<close> is the value pushed at position \<open>i\<close>. The arrays that were in
  the heap are unchanged.
\<close>

theorem LOAD_ARRAY_keys_follow_push_order:
  assumes "valuestack s = rev vs @ rest" and "length vs = n"
  shows "eval E (LOAD_ARRAY n) s
           = Inr (None, s\<lparr>valuestack := W_Array (length (store s)) # rest,
                           store := store s @ [zip (map py_str [0..<n]) vs]\<rparr>)
         \<and> (\<forall>i<n. get (store s @ [zip (map py_str [0..<n]) vs]) (W_Array (length (store s)))
                       (py_str i) = Inr (vs ! i))"
proof
  show "eval E (LOAD_ARRAY n) s
           = Inr (None, s\<lparr>valuestack := W_Array (length (store s)) # rest,
                           store := store s @ [zip (map py_str [0..<n]) vs]\<rparr>)"
    using assms LOAD_ARRAY_eval_result [of n s] by (simp add: no_result_def)
next
  have "inj py_str"
    using py_str_inj by (auto simp: inj_on_def)
  then have dist: "distinct (map py_str [0..<n])"
    by (simp add: distinct_map inj_on_def)
  show "\<forall>i<n. get (store s @ [zip (map py_str [0..<n]) vs]) (W_Array (length (store s)))
                  (py_str i) = Inr (vs ! i)"
  proof (intro allI impI)
    fix i assume "i < n"
    then have "map_of (zip (map py_str [0..<n]) vs) (map py_str [0..<n] ! i) = Some (vs ! i)"
      using assms(2) dist by (intro map_of_zip_nth) simp_all
    then show "get (store s @ [zip (map py_str [0..<n]) vs]) (W_Array (length (store s)))
                 (py_str i) = Inr (vs ! i)"
      using \<open>i < n\<close> by (simp add: array_get_def)
  qed
qed

theorem LOAD_ARRAY_keys_follow_push_order_witness:
  "eval example_env (LOAD_ARRAY 3)
     (empty_state\<lparr>valuestack := [W_IntObject 30, W_IntObject 20, W_IntObject 10, W_Null],
                   store := [[(''k'', W_Null)]]\<rparr>)
   = Inr (None, empty_state\<lparr>valuestack := [W_Array 1, W_Null],
            store := [[(''k'', W_Null)],
                      [(''0'', W_IntObject 10), (''1'', W_IntObject 20), (''2'', W_IntObject 30)]]\<rparr>)"
proof -
  have keys: "map py_str [0..<3] = [''0'', ''1'', ''2'']"
    by code_simp
  show ?thesis
    using LOAD_ARRAY_keys_follow_push_order
      [of "empty_state\<lparr>valuestack := [W_IntObject 30, W_IntObject 20, W_IntObject 10, W_Null],
                   store := [[(''k'', W_Null)]]\<rparr>"
          "[W_IntObject 10, W_IntObject 20, W_IntObject 30]" "[W_Null]" 3 example_env]
    by (simp add: keys empty_state_def)
qed

subsection \<open>\<^verbatim>\<open>STORE_MEMBER\<close>\<close>

text \<open>
  Claim C1, as the code has it. On a frame whose top three values are, from the top, a
  container, a key and a value, \<^verbatim>\<open>STORE_MEMBER\<close> pops all three and mutates the container
  by \<^verbatim>\<open>put(key.str(), value)\<close>. It pushes nothing: the stack is three values shorter, and
  the bindings are as before.
\<close>

theorem STORE_MEMBER_pops_three:
  assumes "valuestack s = array # i # v # rest"
    and "put (store s) array (str E (store s) i) v = Inr st"
  shows "eval E STORE_MEMBER s = Inr (None, s\<lparr>valuestack := rest, store := st\<rparr>)"
  using assms by (simp add: eval_defs frame_defs)

theorem STORE_MEMBER_pops_three_witness:
  "eval example_env STORE_MEMBER store_member_frame
     = Inr (None, store_member_frame\<lparr>valuestack := [], store := [[(''k'', W_IntObject 1)]]\<rparr>)"
  using STORE_MEMBER_pops_three
      [of store_member_frame "W_Array 0" "W_StringObject ''k''" "W_IntObject 1" "[]"
          example_env "[[(''k'', W_IntObject 1)]]"]
  by (simp add: store_member_frame_def example_env_def)

text \<open>
  The claim as the specification states it, with the container pushed back and a depth two
  less, fails on a frame of depth three: the depth afterwards is zero, not one.
\<close>

theorem STORE_MEMBER_no_push_counterexample:
  "valuestack_pos store_member_frame = 3
   \<and> depth_after (eval example_env STORE_MEMBER store_member_frame) = Some 0"
  by (simp add: store_member_frame_def example_env_def depth_after_def eval_defs frame_defs)

subsection \<open>Stack depth and variable bindings of every opcode\<close>

lemma eval_vars:
  assumes "eval E op s = Inr (r, s')" and "\<not> is_ASSIGN op"
  shows "vars s' = vars s"
proof (cases op)
  case (LOAD_ARRAY n)
  with assms show ?thesis
    by (cases "n \<le> length (valuestack s)")
      (auto simp add: no_result_def LOAD_ARRAY_eval_result LOAD_ARRAY_eval_underflow)
qed (use assms in \<open>auto simp add: eval_defs frame_defs
        split: sum.splits list.splits option.splits if_splits value.splits\<close>)

lemma eval_stack_only:
  assumes "eval E op s = Inr (r, s')" and "stack_only op"
  shows "s' = s\<lparr>valuestack := valuestack s'\<rparr>"
  using assms
  by (cases op) (auto simp add: eval_defs frame_defs
        split: sum.splits list.splits option.splits if_splits)

lemma eval_depth:
  assumes "stack_effect op = Some (k, m)" and "eval E op s = Inr (r, s')"
    and "op \<noteq> STORE_MEMBER" and "\<not> is_JUMP_IF_FALSE op"
  shows "k \<le> length (valuestack s) \<and> length (valuestack s') = length (valuestack s) - k + m"
proof (cases op)
  case (LOAD_ARRAY n)
  with assms show ?thesis
    by (cases "n \<le> length (valuestack s)")
      (auto simp add: no_result_def LOAD_ARRAY_eval_result LOAD_ARRAY_eval_underflow)
qed (use assms in \<open>auto simp add: eval_defs frame_defs
        split: sum.splits list.splits option.splits if_splits value.splits\<close>)

lemma eval_underflow:
  assumes "stack_effect op = Some (k, m)" and "length (valuestack s) < k"
    and "\<not> is_JUMP_IF_FALSE op"
  shows "eval E op s = Inl StackUnderflow"
proof (cases op)
  case (LOAD_ARRAY n)
  with assms show ?thesis
    by (simp add: no_result_def LOAD_ARRAY_eval_underflow)
qed (use assms in \<open>auto simp add: eval_defs frame_defs
        split: sum.splits list.splits option.splits if_splits value.splits\<close>)

lemma eval_returns:
  assumes "stack_effect op = Some (k, m)" and "k \<le> length (valuestack s)"
    and "raises_on_underflow_only op"
  shows "\<exists>s'. eval E op s = Inr (None, s')"
proof (cases op)
  case (LOAD_ARRAY n)
  with assms show ?thesis
    by (simp add: no_result_def LOAD_ARRAY_eval_result)
qed (use assms in \<open>auto simp add: eval_defs frame_defs
        split: sum.splits list.splits option.splits if_splits value.splits\<close>)

lemma STORE_MEMBER_depth:
  assumes "eval E STORE_MEMBER s = Inr (r, s')"
  shows "3 \<le> length (valuestack s) \<and> length (valuestack s') = length (valuestack s) - 3"
  using assms
  by (auto simp add: eval_defs frame_defs split: sum.splits list.splits)

lemma JUMP_IF_FALSE_depth:
  assumes "JUMP_IF_FALSE_do_jump E w s pos = Inr (pc, s')"
  shows "1 \<le> length (valuestack s) \<and> length (valuestack s') = length (valuestack s) - 1
    \<and> vars s' = vars s"
  using assms
  by (auto simp add: JUMP_IF_FALSE_do_jump_def frame_defs split: sum.splits list.splits if_splits)

text \<open>
  Claim C2, as the code has it. Let the opcode table document "pop \<open>k\<close>, push \<open>m\<close>" for an
  opcode and let its \<^verbatim>\<open>eval\<close> run on a frame of depth \<open>d\<close>.
  \<^item> For every opcode but \<^verbatim>\<open>STORE_MEMBER\<close> and \<^verbatim>\<open>JUMP_IF_FALSE\<close>: if \<^verbatim>\<open>eval\<close> returns, then
    \<open>k \<le> d\<close> and the depth afterwards is \<open>d - k + m\<close> (so \<open>-1\<close> for each binary comparison,
    boolean and arithmetic opcode, \<open>+1\<close> for each opcode that loads a constant).
  \<^item> \<^verbatim>\<open>STORE_MEMBER\<close> does not push the container back: the depth afterwards is \<open>d - 3\<close>.
  \<^item> The \<^verbatim>\<open>eval\<close> of \<^verbatim>\<open>JUMP_IF_FALSE\<close> does nothing; its one pop is made by \<^verbatim>\<open>do_jump\<close>.
  \<^item> With \<open>d < k\<close> the \<^verbatim>\<open>eval\<close> raises the underflow of the frame.
  \<^item> With \<open>k \<le> d\<close> the \<^verbatim>\<open>eval\<close> of an opcode that calls nothing but the frame, the heap and
    \<^verbatim>\<open>is_true\<close>/\<^verbatim>\<open>str\<close> does return.
\<close>

theorem opcode_stack_delta:
  assumes "stack_effect op = Some (k, m)"
  shows "(op \<noteq> STORE_MEMBER \<and> \<not> is_JUMP_IF_FALSE op \<longrightarrow>
            (\<forall>r s'. eval E op s = Inr (r, s') \<longrightarrow>
               k \<le> length (valuestack s)
               \<and> length (valuestack s') = length (valuestack s) - k + m))
         \<and> (op = STORE_MEMBER \<longrightarrow>
            (\<forall>r s'. eval E op s = Inr (r, s') \<longrightarrow>
               3 \<le> length (valuestack s)
               \<and> length (valuestack s') = length (valuestack s) - 3))
         \<and> (\<forall>w pos pc s'. op = JUMP_IF_FALSE w \<longrightarrow>
               eval E op s = Inr (None, s)
               \<and> (JUMP_IF_FALSE_do_jump E w s pos = Inr (pc, s') \<longrightarrow>
                    1 \<le> length (valuestack s)
                    \<and> length (valuestack s') = length (valuestack s) - 1))
         \<and> (\<not> is_JUMP_IF_FALSE op \<longrightarrow> length (valuestack s) < k \<longrightarrow>
               eval E op s = Inl StackUnderflow)
         \<and> (raises_on_underflow_only op \<longrightarrow> k \<le> length (valuestack s) \<longrightarrow>
               (\<exists>s'. eval E op s = Inr (None, s')))"
proof (intro conjI impI allI)
  fix r s'
  assume "op \<noteq> STORE_MEMBER \<and> \<not> is_JUMP_IF_FALSE op" and "eval E op s = Inr (r, s')"
  then have d: "k \<le> length (valuestack s) \<and> length (valuestack s') = length (valuestack s) - k + m"
    using eval_depth [OF assms, of E s r s'] by simp
  from d show "k \<le> length (valuestack s)" by simp
  from d show "length (valuestack s') = length (valuestack s) - k + m" by simp
next
  fix r s'
  assume "op = STORE_MEMBER" and "eval E op s = Inr (r, s')"
  then have d: "3 \<le> length (valuestack s) \<and> length (valuestack s') = length (valuestack s) - 3"
    using STORE_MEMBER_depth [of E s r s'] by simp
  from d show "3 \<le> length (valuestack s)" by simp
  from d show "length (valuestack s') = length (valuestack s) - 3" by simp
next
  fix w assume "op = JUMP_IF_FALSE w"
  then show "eval E op s = Inr (None, s)" by (simp add: eval_defs)
next
  fix w pos pc s'
  assume "JUMP_IF_FALSE_do_jump E w s pos = Inr (pc, s')"
  then have d: "1 \<le> length (valuestack s) \<and> length (valuestack s') = length (valuestack s) - 1"
    using JUMP_IF_FALSE_depth [of E w s pos pc s'] by simp
  from d show "1 \<le> length (valuestack s)" by simp
  from d show "length (valuestack s') = length (valuestack s) - 1" by simp
next
  assume "\<not> is_JUMP_IF_FALSE op" and "length (valuestack s) < k"
  then show "eval E op s = Inl StackUnderflow"
    using eval_underflow [OF assms] by simp
next
  assume "raises_on_underflow_only op" and "k \<le> length (valuestack s)"
  then show "\<exists>s'. eval E op s = Inr (None, s')"
    using eval_returns [OF assms] by simp
qed

theorem opcode_stack_delta_witness:
  "stack_effect ADD = Some (2, 1)
   \<and> eval example_env ADD (empty_state\<lparr>valuestack := [W_IntObject 3, W_IntObject 2, W_Null]\<rparr>)
       = Inr (None, empty_state\<lparr>valuestack := [W_IntObject 5, W_Null]\<rparr>)
   \<and> eval example_env ADD (empty_state\<lparr>valuestack := [W_IntObject 3]\<rparr>) = Inl StackUnderflow
   \<and> stack_effect (LOAD_INTVAL 5) = Some (0, 1)
   \<and> eval example_env (LOAD_INTVAL 5) empty_state
       = Inr (None, empty_state\<lparr>valuestack := [W_IntObject 5]\<rparr>)"
  using opcode_stack_delta
      [of ADD 2 1 example_env "empty_state\<lparr>valuestack := [W_IntObject 3, W_IntObject 2, W_Null]\<rparr>"]
    opcode_stack_delta [of ADD 2 1 example_env "empty_state\<lparr>valuestack := [W_IntObject 3]\<rparr>"]
    opcode_stack_delta [of "LOAD_INTVAL 5" 0 1 example_env empty_state]
  by (simp add: example_env_def empty_state_def eval_defs frame_defs)

text \<open>
  The claim as the specification states it fails for \<^verbatim>\<open>STORE_MEMBER\<close>, documented as
  "pop 3, push back container": from depth four the depth afterwards is one, not
  \<open>4 - 3 + 1\<close>. It fails for the \<^verbatim>\<open>eval\<close> of \<^verbatim>\<open>JUMP_IF_FALSE\<close>, documented as "pop 1":
  from depth one the depth afterwards is one. And an \<^verbatim>\<open>eval\<close> may raise on a frame that is
  deep enough, as \<^verbatim>\<open>LOAD_VAR\<close> does on a variable that is not set.
\<close>

theorem opcode_stack_delta_counterexample:
  "stack_effect STORE_MEMBER = Some (3, 1)
   \<and> valuestack_pos (empty_state\<lparr>valuestack := [W_Array 0, W_StringObject ''n'', W_Null, W_Null],
                                   store := [[]]\<rparr>) = 4
   \<and> depth_after (eval example_env STORE_MEMBER
        (empty_state\<lparr>valuestack := [W_Array 0, W_StringObject ''n'', W_Null, W_Null],
                      store := [[]]\<rparr>)) = Some 1
   \<and> stack_effect (JUMP_IF_FALSE 0) = Some (1, 0)
   \<and> valuestack_pos (empty_state\<lparr>valuestack := [W_Null]\<rparr>) = 1
   \<and> depth_after (eval example_env (JUMP_IF_FALSE 0) (empty_state\<lparr>valuestack := [W_Null]\<rparr>))
       = Some 1
   \<and> stack_effect (LOAD_VAR 0 ''$v'') = Some (0, 1)
   \<and> depth_after (eval example_env (LOAD_VAR 0 ''$v'') empty_state) = None"
  by (simp add: empty_state_def example_env_def depth_after_def eval_defs frame_defs)

text \<open>
  Claim C9. An opcode that works on the stack alone (the constant loads, \<^verbatim>\<open>DUP\<close>,
  \<^verbatim>\<open>DISCARD_TOP\<close>, \<^verbatim>\<open>NOT\<close>, \<^verbatim>\<open>INCR\<close>, \<^verbatim>\<open>DECR\<close>, the arithmetic, comparison and boolean
  opcodes) changes nothing of the state but the stack. No \<^verbatim>\<open>eval\<close> but that of \<^verbatim>\<open>ASSIGN\<close>
  changes a variable binding, nor does a \<^verbatim>\<open>do_jump\<close>; \<^verbatim>\<open>ASSIGN\<close> binds the popped value to
  its name.
\<close>

theorem only_ASSIGN_writes_vars:
  "(stack_only op \<longrightarrow> (\<forall>r s'. eval E op s = Inr (r, s') \<longrightarrow> s' = s\<lparr>valuestack := valuestack s'\<rparr>))
   \<and> (\<not> is_ASSIGN op \<longrightarrow> (\<forall>r s'. eval E op s = Inr (r, s') \<longrightarrow> vars s' = vars s))
   \<and> (\<forall>where pos pc s'. JUMP_IF_FALSE_do_jump E where s pos = Inr (pc, s') \<longrightarrow> vars s' = vars s)
   \<and> (\<forall>where pos. JUMP_do_jump where s pos = Inr (where, s))
   \<and> (\<forall>index name v rest. valuestack s = v # rest \<longrightarrow>
         eval E (ASSIGN index name) s
           = Inr (None, s\<lparr>valuestack := rest, vars := (vars s)(name \<mapsto> v)\<rparr>))"
proof (intro conjI impI allI)
  fix r s' assume "stack_only op" and "eval E op s = Inr (r, s')"
  then show "s' = s\<lparr>valuestack := valuestack s'\<rparr>" by (rule eval_stack_only [rotated])
next
  fix r s' assume "\<not> is_ASSIGN op" and "eval E op s = Inr (r, s')"
  then show "vars s' = vars s" by (rule eval_vars [rotated])
next
  fix w pos pc s' assume "JUMP_IF_FALSE_do_jump E w s pos = Inr (pc, s')"
  then show "vars s' = vars s" using JUMP_IF_FALSE_depth by blast
next
  fix w pos show "JUMP_do_jump w s pos = Inr (w, s)" by (simp add: JUMP_do_jump_def)
next
  fix index name v rest assume "valuestack s = v # rest"
  then show "eval E (ASSIGN index name) s
           = Inr (None, s\<lparr>valuestack := rest, vars := (vars s)(name \<mapsto> v)\<rparr>)"
    by (simp add: eval_defs frame_defs)
qed

theorem only_ASSIGN_writes_vars_witness:
  "eval example_env ADD (store_member_frame\<lparr>valuestack := [W_IntObject 3, W_IntObject 2]\<rparr>)
     = Inr (None, store_member_frame\<lparr>valuestack := [W_IntObject 5]\<rparr>)
   \<and> eval example_env (ASSIGN 1 ''$b'') store_member_frame
     = Inr (None, store_member_frame\<lparr>valuestack := [W_StringObject ''k'', W_IntObject 1],
                    vars := (vars store_member_frame)(''$b'' \<mapsto> W_Array 0)\<rparr>)"
  using only_ASSIGN_writes_vars
      [of ADD example_env "store_member_frame\<lparr>valuestack := [W_IntObject 3, W_IntObject 2]\<rparr>"]
    only_ASSIGN_writes_vars [of "ASSIGN 1 ''$b''" example_env store_member_frame]
  by (simp add: store_member_frame_def example_env_def eval_defs frame_defs)

subsection \<open>\<^verbatim>\<open>LOAD_STRINGVAL\<close>\<close>

text \<open>
  The loops of \<^verbatim>\<open>LOAD_STRINGVAL.eval\<close> against the protocol in the specification's words,
  for references that all resolve and have no empty index key (\<^verbatim>\<open>key[0]\<close> raises on one).
\<close>

lemma navigate_spec:
  assumes "[] \<notin> set keys"
    and "those (map (spec_key E s) keys) = Some actual_keys"
    and "spec_get_path (store s) v actual_keys = Some v'"
  shows "navigate E s (Some v) keys = Inr (Some v')"
  using assms
proof (induction keys arbitrary: v actual_keys)
  case Nil
  then show ?case by simp
next
  case (Cons key keys)
  from Cons.prems(1) obtain c cs where key: "key = c # cs"
    by (cases key) auto
  from Cons.prems(2) obtain k ks where k: "spec_key E s key = Some k"
    and ks: "those (map (spec_key E s) keys) = Some ks" and ak: "actual_keys = k # ks"
    by (auto split: option.splits)
  from Cons.prems(3) ak obtain v1 where g: "get (store s) v k = Inr v1"
    and rest: "spec_get_path (store s) v1 ks = Some v'"
    by (auto split: sum.splits)
  have "navigate E s (Some v1) keys = Inr (Some v')"
    using Cons.prems(1) ks rest by (intro Cons.IH) auto
  then show ?case
    using key k g by (auto simp add: spec_key_def frame_defs split: option.splits if_splits)
qed

lemma interpolate_spec:
  assumes "\<forall>reference \<in> set variables. [] \<notin> set (snd (snd reference))"
    and "map (spec_resolve E s) variables = map Some vals"
  shows "interpolate E s variables stringval
           = Inr (spec_substitute E (store s) stringval (zip (map fst variables) vals))"
  using assms
proof (induction variables arbitrary: stringval vals)
  case Nil
  then show ?case by (simp add: spec_substitute_def)
next
  case (Cons reference variables)
  obtain search base keys where r: "reference = (search, base, keys)"
    by (cases reference) auto
  from Cons.prems(2) obtain v vs where vals: "vals = v # vs"
    and v: "spec_resolve E s reference = Some v"
    and vs: "map (spec_resolve E s) variables = map Some vs"
    by (cases vals) auto
  from v r obtain b aks where b: "vars s base = Some b"
    and aks: "those (map (spec_key E s) keys) = Some aks"
    and path: "spec_get_path (store s) b aks = Some v"
    by (auto simp add: spec_resolve_def split: option.splits)
  have "[] \<notin> set keys" using Cons.prems(1) r by auto
  then have nav: "navigate E s (Some b) keys = Inr (Some v)"
    using aks path by (rule navigate_spec)
  have "interpolate E s variables (replace stringval search (str E (store s) v))
          = Inr (spec_substitute E (store s) (replace stringval search (str E (store s) v))
                   (zip (map fst variables) vs))"
    using Cons.prems(1) vs by (intro Cons.IH) auto
  then show ?case
    using r vals b nav by (simp add: frame_defs spec_substitute_def)
qed

text \<open>
  Claim C7. When every embedded reference resolves to a value (the base variable is bound,
  an index key that begins with \<^verbatim>\<open>$\<close> names a bound variable whose string form is the key,
  and the successive \<^verbatim>\<open>get\<close> navigations succeed), \<^verbatim>\<open>LOAD_STRINGVAL\<close> pushes the template
  after the substitutions made one by one in the order of the recorded list, each replacing
  every occurrence of the search pattern by the display string of the reference's value.
  The witness runs one template with two recorded orders and gets two different strings.
\<close>

theorem LOAD_STRINGVAL_recorded_order:
  assumes "\<forall>reference \<in> set variables. [] \<notin> set (snd (snd reference))"
    and "map (spec_resolve E s) variables = map Some vals"
  shows "eval E (LOAD_STRINGVAL template variables) s
           = Inr (None, s\<lparr>valuestack :=
                   W_StringObject (spec_substitute E (store s) template (zip (map fst variables) vals))
                     # valuestack s\<rparr>)"
  using interpolate_spec [OF assms, of template]
  by (simp add: eval_defs frame_defs)

theorem LOAD_STRINGVAL_recorded_order_witness:
  "eval example_env (LOAD_STRINGVAL ''$x $y $m[$k]''
        [(''$y'', ''$y'', []), (''$x'', ''$x'', []), (''$m[$k]'', ''$m'', [''$k''])])
      interpolation_frame
    = Inr (None, interpolation_frame\<lparr>valuestack := [W_StringObject ''1 1 zero'']\<rparr>)
   \<and> eval example_env (LOAD_STRINGVAL ''$x $y $m[$k]''
        [(''$x'', ''$x'', []), (''$y'', ''$y'', []), (''$m[$k]'', ''$m'', [''$k''])])
      interpolation_frame
    = Inr (None, interpolation_frame\<lparr>valuestack := [W_StringObject ''1 $x zero'']\<rparr>)"
proof -
  have z: "py_str 0 = ''0''" by code_simp
  have sub1: "spec_substitute example_env (store interpolation_frame) ''$x $y $m[$k]''
           [(''$y'', W_StringObject ''$x''), (''$x'', W_StringObject ''1''),
            (''$m[$k]'', W_StringObject ''zero'')] = ''1 1 zero''"
    by (simp add: spec_substitute_def example_env_def)
  have sub2: "spec_substitute example_env (store interpolation_frame) ''$x $y $m[$k]''
           [(''$x'', W_StringObject ''1''), (''$y'', W_StringObject ''$x''),
            (''$m[$k]'', W_StringObject ''zero'')] = ''1 $x zero''"
    by (simp add: spec_substitute_def example_env_def)
  show ?thesis
    using LOAD_STRINGVAL_recorded_order [of
      "[(''$y'', ''$y'', []), (''$x'', ''$x'', []), (''$m[$k]'', ''$m'', [''$k''])]"
      example_env interpolation_frame
      "[W_StringObject ''$x'', W_StringObject ''1'', W_StringObject ''zero'']"
      "''$x $y $m[$k]''"]
     LOAD_STRINGVAL_recorded_order [of
      "[(''$x'', ''$x'', []), (''$y'', ''$y'', []), (''$m[$k]'', ''$m'', [''$k''])]"
      example_env interpolation_frame
      "[W_StringObject ''1'', W_StringObject ''$x'', W_StringObject ''zero'']"
      "''$x $y $m[$k]''"] sub1 sub2
    by (simp add: spec_resolve_def spec_key_def interpolation_frame_def example_env_def
        array_get_def z)
qed

end
